theory Spec2Isabelle
  imports Main "HOL-Library.Word" "HOL-Library.Signed_Division"
begin

section \<open>The RPC client runtime of \<^verbatim>\<open>src/ray/rpc/client_call.h\<close>\<close>

text \<open>
  The header defines \<^verbatim>\<open>ClientCallImpl\<close> (one outstanding request) and
  \<^verbatim>\<open>ClientCallManager\<close> (call creation, the cluster-identity cell, the polling
  threads). Members keep their names; a trailing underscore is not a legal end of an
  Isabelle name, so the member \<^verbatim>\<open>x_\<close> is the field \<open>x_'\<close>.

  Execution is modelled one atomic step at a time: each method, each iteration of the
  polling loop and each handler run by the event loop is a function from the state before
  to the state after. A mutex-protected block is one such step. What the process can abort
  on, or what C++ leaves undefined, is an \<open>error\<close> value.
\<close>

subsection \<open>Collaborators that the header only uses\<close>

text \<open>
  A pointer to a heap-allocated call. The same value is the completion tag handed to gRPC
  (\<^verbatim>\<open>(void *)call\<close>).
\<close>

type_synonym tag = nat

text \<open>
  Modelled from the spec: \<^verbatim>\<open>ClusterID\<close> (\<^verbatim>\<open>ray/common/id.h\<close>) is missing; the spec
  describes it as "an opaque, comparable, nil-able identifier type with a defined nil
  sentinel and a stable textual form". The textual form of a non-nil identifier is the
  string it carries.
\<close>

datatype ClusterID = Nil_ClusterID | ClusterID string

fun IsNil :: "ClusterID \<Rightarrow> bool" where
  "IsNil Nil_ClusterID = True"
| "IsNil (ClusterID h) = False"

fun Hex :: "ClusterID \<Rightarrow> string" where
  "Hex (ClusterID h) = h"

text \<open>
  Modelled from the spec: the event loop and its accounting service
  (\<^verbatim>\<open>instrumented_io_context\<close>, \<^verbatim>\<open>StatsHandle\<close>) are missing; the spec gives
  them a "stopped()" query, a thread-safe "post(task, accountingHandle)" and
  "recordStart(callName) -> handle". A \<^verbatim>\<open>std::shared_ptr<StatsHandle>\<close> is a
  \<open>StatsHandle option\<close>, \<open>None\<close> being the null pointer. A posted handler is the
  lambda of \<^verbatim>\<open>PollEventsFromCompletionQueue\<close>, which captures the call pointer only.
\<close>

datatype StatsHandle = StatsHandle string nat

record instrumented_io_context =
  stopped :: bool
  handlers :: "(tag \<times> StatsHandle option) list"
  stats :: "string list"

text \<open>
  Modelled from the spec: \<^verbatim>\<open>stats().RecordStart\<close> is missing; by the spec's
  "recordStart(callName) -> handle" it returns a handle for the named call, "created at
  call start". Handles are told apart by the number of calls recorded before.
\<close>

definition RecordStart ::
  "string \<Rightarrow> instrumented_io_context \<Rightarrow> StatsHandle option \<times> instrumented_io_context" where
  "RecordStart name io =
     (Some (StatsHandle name (length (stats io))), io\<lparr>stats := stats io @ [name]\<rparr>)"

text \<open>
  Modelled from the spec: \<^verbatim>\<open>instrumented_io_context::post\<close> is missing; by the spec's
  "post(task, accountingHandle)" it "schedules task for execution on the single
  cooperative thread".
\<close>

definition post ::
  "tag \<Rightarrow> StatsHandle option \<Rightarrow> instrumented_io_context \<Rightarrow> instrumented_io_context" where
  "post handler stats_handle io = io\<lparr>handlers := handlers io @ [(handler, stats_handle)]\<rparr>"

text \<open>
  \<^verbatim>\<open>grpc::ClientContext\<close>: the deadline, when one was set, and the metadata added so far.
  The deadline is a \<^verbatim>\<open>std::chrono::system_clock::time_point\<close>: a signed 64-bit count
  of nanoseconds since the epoch (read with \<open>sint\<close>).
\<close>

record ClientContext =
  ctx_deadline :: "64 word option"
  ctx_metadata :: "(string \<times> string) list"

definition set_deadline :: "64 word \<Rightarrow> ClientContext \<Rightarrow> ClientContext" where
  "set_deadline d ctx = ctx\<lparr>ctx_deadline := Some d\<rparr>"

definition AddMetadata :: "string \<Rightarrow> string \<Rightarrow> ClientContext \<Rightarrow> ClientContext" where
  "AddMetadata k v ctx = ctx\<lparr>ctx_metadata := ctx_metadata ctx @ [(k, v)]\<rparr>"

text \<open>
  \<^verbatim>\<open>grpc::ClientAsyncResponseReader\<close>, as far as the header drives it: the request it
  was prepared with, the completion queue it was bound to (the index \<open>i\<close> of
  \<^verbatim>\<open>cqs_[i].get()\<close>), whether \<^verbatim>\<open>StartCall\<close> has run, and the tag given to
  \<^verbatim>\<open>Finish\<close>.
\<close>

record 'q ClientAsyncResponseReader =
  reader_request :: 'q
  reader_cq :: nat
  reader_started :: bool
  reader_tag :: "tag option"

definition PrepareAsync :: "'q \<Rightarrow> nat \<Rightarrow> 'q ClientAsyncResponseReader" where
  "PrepareAsync request cq =
     \<lparr>reader_request = request, reader_cq = cq, reader_started = False, reader_tag = None\<rparr>"

definition StartCall :: "'q ClientAsyncResponseReader \<Rightarrow> 'q ClientAsyncResponseReader" where
  "StartCall r = r\<lparr>reader_started := True\<rparr>"

definition Finish :: "tag \<Rightarrow> 'q ClientAsyncResponseReader \<Rightarrow> 'q ClientAsyncResponseReader" where
  "Finish t r = r\<lparr>reader_tag := Some t\<rparr>"

text \<open>
  A \<^verbatim>\<open>grpc::CompletionQueue\<close> has no state of its own here: what it holds is gRPC's
  matter and shows only in the answers of \<^verbatim>\<open>AsyncNext\<close>, which are inputs of the
  model.
\<close>

datatype CompletionQueue = CompletionQueue

datatype NextStatus = SHUTDOWN | GOT_EVENT | TIMEOUT

text \<open>
  What one \<^verbatim>\<open>AsyncNext(&got_tag, &ok, deadline)\<close> leaves behind: the returned status
  and the two out-parameters (\<open>None\<close> is the null tag).
\<close>

type_synonym AsyncNext_result = "NextStatus \<times> tag option \<times> bool"

text \<open>
  The parts of \<^verbatim>\<open>ray/common\<close> and of the generated code that the header refers to and
  that are missing: the metadata key, the status conversion, and the
  default-constructed values of \<^verbatim>\<open>grpc::Status\<close> (\<open>'g\<close>), \<^verbatim>\<open>ray::Status\<close> (\<open>'s\<close>)
  and the reply message (\<open>'r\<close>). They are parameters of the model.
\<close>

record ('g, 's, 'r) externals =
  kClusterIdKey :: string
  GrpcStatusToRayStatus :: "'g \<Rightarrow> 's"
  grpc_Status_default :: 'g
  ray_Status_default :: 's
  Reply_default :: 'r

text \<open>
  How an operation can fail: \<^verbatim>\<open>RAY_LOG(FATAL)\<close> in \<^verbatim>\<open>SetClusterId\<close> (with the
  expected and the found identifier), the \<^verbatim>\<open>RAY_CHECK\<close> of the polling loop, the
  exception of \<^verbatim>\<open>std::vector::reserve\<close>, and undefined behaviour.
\<close>

datatype error =
    FATAL_cluster_id ClusterID ClusterID
  | CHECK_stats_handle
  | length_error
  | UndefinedBehaviour

subsection \<open>\<^verbatim>\<open>ClientCallImpl\<close>\<close>

text \<open>
  \<open>'u\<close> is the state of the user's program; a callback is a function that changes it,
  and an empty \<^verbatim>\<open>std::function\<close> is \<open>None\<close>.
\<close>

type_synonym ('s, 'r, 'u) ClientCallback = "'s \<Rightarrow> 'r \<Rightarrow> 'u \<Rightarrow> 'u"

record ('g, 's, 'r, 'q, 'u) ClientCallImpl =
  reply_' :: 'r
  callback_' :: "('s, 'r, 'u) ClientCallback option"
  stats_handle_' :: "StatsHandle option"
  response_reader_' :: "'q ClientAsyncResponseReader option"
  status_' :: 'g
  return_status_' :: 's
  context_' :: ClientContext

text \<open>
  The constructor. \<open>now\<close> is the reading of \<^verbatim>\<open>system_clock::now()\<close>, in nanoseconds.
  Adding \<^verbatim>\<open>std::chrono::milliseconds(timeout_ms)\<close> to it converts the timeout to
  nanoseconds (times 1000000) and adds, both on signed 64-bit integers. Where that
  overflows C++ leaves the result undefined; the model has the two's complement result,
  which is what the compiled code yields.
\<close>

definition new_ClientCallImpl ::
  "('g, 's, 'r) externals \<Rightarrow> 64 word \<Rightarrow> ('s, 'r, 'u) ClientCallback option \<Rightarrow> ClusterID \<Rightarrow>
   StatsHandle option \<Rightarrow> 64 word \<Rightarrow> ('g, 's, 'r, 'q, 'u) ClientCallImpl" where
  "new_ClientCallImpl X now callback cluster_id stats_handle timeout_ms =
     (let c0 = \<lparr>reply_' = Reply_default X,
                callback_' = callback,
                stats_handle_' = stats_handle,
                response_reader_' = None,
                status_' = grpc_Status_default X,
                return_status_' = ray_Status_default X,
                context_' = \<lparr>ctx_deadline = None, ctx_metadata = []\<rparr>\<rparr>;
          c1 = (if timeout_ms \<noteq> - 1
                then c0\<lparr>context_' := set_deadline (now + 1000000 * timeout_ms) (context_' c0)\<rparr>
                else c0)
      in if \<not> IsNil cluster_id
         then c1\<lparr>context_' := AddMetadata (kClusterIdKey X) (Hex cluster_id) (context_' c1)\<rparr>
         else c1)"

definition GetStatus :: "('g, 's, 'r, 'q, 'u) ClientCallImpl \<Rightarrow> 's" where
  "GetStatus c = return_status_' c"

definition SetReturnStatus ::
  "('g, 's, 'r) externals \<Rightarrow> ('g, 's, 'r, 'q, 'u) ClientCallImpl \<Rightarrow>
   ('g, 's, 'r, 'q, 'u) ClientCallImpl" where
  "SetReturnStatus X c = c\<lparr>return_status_' := GrpcStatusToRayStatus X (status_' c)\<rparr>"

definition OnReplyReceived :: "('g, 's, 'r, 'q, 'u) ClientCallImpl \<Rightarrow> 'u \<Rightarrow> 'u" where
  "OnReplyReceived c w =
     (let status = return_status_' c
      in case callback_' c of
           None \<Rightarrow> w
         | Some cb \<Rightarrow> cb status (reply_' c) w)"

definition GetStatsHandle :: "('g, 's, 'r, 'q, 'u) ClientCallImpl \<Rightarrow> StatsHandle option" where
  "GetStatsHandle c = stats_handle_' c"

subsection \<open>\<^verbatim>\<open>ClientCallManager\<close>\<close>

text \<open>
  The members of the class, followed by what its methods reach through pointers: the
  objects allocated with \<^verbatim>\<open>new\<close> (\<open>heap\<close>, with \<open>next_addr\<close> the next address the
  allocator hands out) and the state of the user's program (\<open>world\<close>).
\<close>

record ('g, 's, 'r, 'q, 'u) ClientCallManager =
  cluster_id_' :: ClusterID
  main_service_' :: instrumented_io_context
  num_threads_' :: int
  shutdown_' :: bool
  rr_index_' :: "32 word"
  cqs_' :: "CompletionQueue list"
  polling_threads_' :: "nat list"
  call_timeout_ms_' :: "64 word"
  heap :: "tag \<rightharpoonup> ('g, 's, 'r, 'q, 'u) ClientCallImpl"
  next_addr :: tag
  world :: 'u

text \<open>
  The constructor. \<open>rand\<close> is the value \<^verbatim>\<open>rand()\<close> returns; \<^verbatim>\<open>%\<close> on two
  \<^verbatim>\<open>int\<close>s truncates (\<open>smod\<close>) and is undefined for a zero divisor; the result is
  converted to \<^verbatim>\<open>unsigned int\<close>. A negative \<open>num_threads\<close> becomes a size beyond
  \<^verbatim>\<open>max_size()\<close> in \<^verbatim>\<open>cqs_.reserve\<close>, which throws. The \<open>cluster_id\<close> argument is
  not used: the member is initialised with \<^verbatim>\<open>ClusterID::Nil()\<close>. Thread \<open>i\<close> runs
  \<^verbatim>\<open>PollEventsFromCompletionQueue(i)\<close>.
\<close>

definition new_ClientCallManager ::
  "instrumented_io_context \<Rightarrow> 'u \<Rightarrow> int \<Rightarrow> ClusterID \<Rightarrow> int \<Rightarrow> 64 word \<Rightarrow>
   error + ('g, 's, 'r, 'q, 'u) ClientCallManager" where
  "new_ClientCallManager main_service w rand cluster_id num_threads call_timeout_ms =
     (if num_threads = 0 then Inl UndefinedBehaviour
      else if num_threads < 0 then Inl length_error
      else Inr \<lparr>cluster_id_' = Nil_ClusterID,
                main_service_' = main_service,
                num_threads_' = num_threads,
                shutdown_' = False,
                rr_index_' = word_of_int (rand smod num_threads),
                cqs_' = replicate (nat num_threads) CompletionQueue,
                polling_threads_' = [0..<nat num_threads],
                call_timeout_ms_' = call_timeout_ms,
                heap = Map.empty,
                next_addr = 0,
                world = w\<rparr>)"

text \<open>
  \<^verbatim>\<open>CreateCall\<close>. \<open>now\<close> is the reading of the system clock in the call's constructor.
  In \<^verbatim>\<open>rr_index_++ % num_threads_\<close> the \<^verbatim>\<open>int\<close> is converted to
  \<^verbatim>\<open>unsigned int\<close>; the remainder is undefined for zero, and so is
  \<^verbatim>\<open>cqs_[i]\<close> beyond the end of the vector.
\<close>

definition CreateCall ::
  "('g, 's, 'r) externals \<Rightarrow> 64 word \<Rightarrow> 'q \<Rightarrow> ('s, 'r, 'u) ClientCallback option \<Rightarrow> string \<Rightarrow>
   64 word \<Rightarrow> ('g, 's, 'r, 'q, 'u) ClientCallManager \<Rightarrow>
   error + ('g, 's, 'r, 'q, 'u) ClientCallManager" where
  "CreateCall X now request callback call_name method_timeout_ms m =
     (let (stats_handle, io) = RecordStart call_name (main_service_' m);
          timeout_ms = (if method_timeout_ms = - 1 then call_timeout_ms_' m
                        else method_timeout_ms);
          call = new_ClientCallImpl X now callback (cluster_id_' m) stats_handle timeout_ms;
          addr = next_addr m;
          n = (word_of_int (num_threads_' m) :: 32 word);
          i = unat (rr_index_' m mod n)
      in if n = 0 \<or> length (cqs_' m) \<le> i then Inl UndefinedBehaviour
         else Inr (m\<lparr>main_service_' := io,
                     rr_index_' := rr_index_' m + 1,
                     heap := (heap m)(addr \<mapsto>
                       call\<lparr>response_reader_' :=
                         Some (Finish addr (StartCall (PrepareAsync request i)))\<rparr>),
                     next_addr := addr + 1\<rparr>))"

text \<open>
  \<^verbatim>\<open>SetClusterId\<close>: the exchange stores \<^verbatim>\<open>ClusterID::Nil()\<close> and yields the old
  value; \<^verbatim>\<open>RAY_LOG(FATAL)\<close> aborts the process with the two identifiers.
\<close>

definition SetClusterId ::
  "ClusterID \<Rightarrow> ('g, 's, 'r, 'q, 'u) ClientCallManager \<Rightarrow>
   error + ('g, 's, 'r, 'q, 'u) ClientCallManager" where
  "SetClusterId cluster_id m =
     (let old_id = cluster_id_' m;
          m' = m\<lparr>cluster_id_' := Nil_ClusterID\<rparr>
      in if \<not> IsNil old_id \<and> old_id \<noteq> cluster_id
         then Inl (FATAL_cluster_id cluster_id old_id)
         else Inr m')"

text \<open>
  One iteration of the loop of \<^verbatim>\<open>PollEventsFromCompletionQueue(index)\<close>. \<open>now\<close> is
  the reading of \<^verbatim>\<open>gpr_now\<close>, and \<open>AsyncNext i d\<close> is what the completion queue
  \<open>i\<close> answers when asked to wait until \<open>d\<close>. The iteration either leaves the loop or
  goes round again.
\<close>

datatype loop_exit = Break | Continue

definition gpr_time_from_millis :: "int \<Rightarrow> int" where
  "gpr_time_from_millis ms = ms"

definition gpr_time_add :: "int \<Rightarrow> int \<Rightarrow> int" where
  "gpr_time_add a b = a + b"

definition PollIteration ::
  "('g, 's, 'r) externals \<Rightarrow> nat \<Rightarrow> (nat \<Rightarrow> int \<Rightarrow> AsyncNext_result) \<Rightarrow> int \<Rightarrow>
   ('g, 's, 'r, 'q, 'u) ClientCallManager \<Rightarrow>
   error + (loop_exit \<times> ('g, 's, 'r, 'q, 'u) ClientCallManager)" where
  "PollIteration X index AsyncNext now m =
     (let deadline = gpr_time_add now (gpr_time_from_millis 250)
      in if length (cqs_' m) \<le> index then Inl UndefinedBehaviour
         else
           let (status, got_tag, ok) = AsyncNext index deadline
           in if status = SHUTDOWN then Inr (Break, m)
              else if status = TIMEOUT \<and> shutdown_' m then Inr (Break, m)
              else if status \<noteq> TIMEOUT then
                (case got_tag of
                   None \<Rightarrow> Inl UndefinedBehaviour
                 | Some t \<Rightarrow>
                     (case heap m t of
                        None \<Rightarrow> Inl UndefinedBehaviour
                      | Some call \<Rightarrow>
                          let call' = SetReturnStatus X call;
                              m1 = m\<lparr>heap := (heap m)(t \<mapsto> call')\<rparr>;
                              stats_handle = GetStatsHandle call'
                          in if stats_handle = None then Inl CHECK_stats_handle
                             else if ok \<and> \<not> stopped (main_service_' m1) \<and> \<not> shutdown_' m1
                             then Inr (Continue,
                                       m1\<lparr>main_service_' :=
                                            post t stats_handle (main_service_' m1)\<rparr>)
                             else Inr (Continue, m1\<lparr>heap := (heap m1)(t := None)\<rparr>)))
              else Inr (Continue, m))"

text \<open>
  The loop itself, \<^verbatim>\<open>while (true)\<close>: it goes on for as long as the completion queue
  answers, so it is run against the list of the answers it gets (each with the clock
  reading of that iteration). \<open>True\<close> in the result says that the loop was left;
  \<open>False\<close> that the thread is still waiting in \<^verbatim>\<open>AsyncNext\<close> after the last
  answer. Naming the thread (\<^verbatim>\<open>SetThreadName\<close>) changes nothing here.
\<close>

fun PollEventsFromCompletionQueue ::
  "('g, 's, 'r) externals \<Rightarrow> nat \<Rightarrow> (int \<times> (nat \<Rightarrow> int \<Rightarrow> AsyncNext_result)) list \<Rightarrow>
   ('g, 's, 'r, 'q, 'u) ClientCallManager \<Rightarrow>
   error + (bool \<times> ('g, 's, 'r, 'q, 'u) ClientCallManager)" where
  "PollEventsFromCompletionQueue X index [] m = Inr (False, m)"
| "PollEventsFromCompletionQueue X index ((now, AsyncNext) # rest) m =
     (case PollIteration X index AsyncNext now m of
        Inl err \<Rightarrow> Inl err
      | Inr (Break, m') \<Rightarrow> Inr (True, m')
      | Inr (Continue, m') \<Rightarrow> PollEventsFromCompletionQueue X index rest m')"

text \<open>
  The handler posted to the event loop: \<^verbatim>\<open>call->OnReplyReceived(); delete call;\<close>.
\<close>

definition posted_handler ::
  "tag \<Rightarrow> ('g, 's, 'r, 'q, 'u) ClientCallManager \<Rightarrow>
   error + ('g, 's, 'r, 'q, 'u) ClientCallManager" where
  "posted_handler call m =
     (case heap m call of
        None \<Rightarrow> Inl UndefinedBehaviour
      | Some c \<Rightarrow>
          Inr (m\<lparr>world := OnReplyReceived c (world m), heap := (heap m)(call := None)\<rparr>))"

subsection \<open>Sequences of operations\<close>

text \<open>
  Running one operation after another stops at the first error, as the abort would.
\<close>

definition and_then :: "error + 'a \<Rightarrow> ('a \<Rightarrow> error + 'b) \<Rightarrow> error + 'b" where
  "and_then r f = (case r of Inl e \<Rightarrow> Inl e | Inr a \<Rightarrow> f a)"

definition observe :: "('a \<Rightarrow> 'b) \<Rightarrow> error + 'a \<Rightarrow> error + 'b" where
  "observe f r = (case r of Inl e \<Rightarrow> Inl e | Inr a \<Rightarrow> Inr (f a))"

text \<open>
  A caller that submits several calls in a row; each element holds the clock reading and
  the arguments of one \<^verbatim>\<open>CreateCall\<close>.
\<close>

type_synonym ('s, 'r, 'q, 'u) call_args =
  "64 word \<times> 'q \<times> ('s, 'r, 'u) ClientCallback option \<times> string \<times> 64 word"

fun CreateCalls ::
  "('g, 's, 'r) externals \<Rightarrow> ('s, 'r, 'q, 'u) call_args list \<Rightarrow>
   ('g, 's, 'r, 'q, 'u) ClientCallManager \<Rightarrow> error + ('g, 's, 'r, 'q, 'u) ClientCallManager" where
  "CreateCalls X [] m = Inr m"
| "CreateCalls X ((now, request, callback, call_name, method_timeout_ms) # rest) m =
     and_then (CreateCall X now request callback call_name method_timeout_ms m)
              (CreateCalls X rest)"

text \<open>
  What can be seen of the call at address \<open>t\<close>: the completion queue its request was
  bound to, and the metadata its request carries.
\<close>

definition call_channel :: "tag \<Rightarrow> ('g, 's, 'r, 'q, 'u) ClientCallManager \<Rightarrow> nat option" where
  "call_channel t m =
     (case heap m t of
        None \<Rightarrow> None
      | Some c \<Rightarrow> map_option reader_cq (response_reader_' c))"

definition call_channels ::
  "tag list \<Rightarrow> ('g, 's, 'r, 'q, 'u) ClientCallManager \<Rightarrow> nat option list" where
  "call_channels ts m = map (\<lambda>t. call_channel t m) ts"

definition call_metadata ::
  "tag \<Rightarrow> ('g, 's, 'r, 'q, 'u) ClientCallManager \<Rightarrow> (string \<times> string) list option" where
  "call_metadata t m = map_option (\<lambda>c. ctx_metadata (context_' c)) (heap m t)"

text \<open>
  The states a process can be in: the manager is constructed; then, in any order, callers
  create calls and set the cluster identity, gRPC writes the reply and the status of a
  pending call, a polling thread goes once round its loop, the event loop runs a posted
  handler or is stopped, and the destructor raises the shutdown flag.
\<close>

inductive reachable ::
  "('g, 's, 'r) externals \<Rightarrow> ('g, 's, 'r, 'q, 'u) ClientCallManager \<Rightarrow> bool"
  for X :: "('g, 's, 'r) externals" where
  r_new: "new_ClientCallManager main_service w rand cluster_id num_threads call_timeout_ms = Inr m
          \<Longrightarrow> reachable X m"
| r_create: "reachable X m \<Longrightarrow>
          CreateCall X now request callback call_name method_timeout_ms m = Inr m'
          \<Longrightarrow> reachable X m'"
| r_set_id: "reachable X m \<Longrightarrow> SetClusterId cluster_id m = Inr m' \<Longrightarrow> reachable X m'"
| r_grpc: "reachable X m \<Longrightarrow> heap m t = Some c
          \<Longrightarrow> reachable X (m\<lparr>heap := (heap m)(t \<mapsto> c\<lparr>reply_' := reply, status_' := status\<rparr>)\<rparr>)"
| r_poll: "reachable X m \<Longrightarrow> PollIteration X index AsyncNext now m = Inr (e, m')
          \<Longrightarrow> reachable X m'"
| r_handler: "reachable X m \<Longrightarrow> (t, h) \<in> set (handlers (main_service_' m)) \<Longrightarrow>
          posted_handler t
            (m\<lparr>main_service_' :=
                 (main_service_' m)\<lparr>handlers := remove1 (t, h) (handlers (main_service_' m))\<rparr>\<rparr>)
            = Inr m'
          \<Longrightarrow> reachable X m'"
| r_stop: "reachable X m
          \<Longrightarrow> reachable X (m\<lparr>main_service_' := (main_service_' m)\<lparr>stopped := True\<rparr>\<rparr>)"
| r_shutdown: "reachable X m \<Longrightarrow> reachable X (m\<lparr>shutdown_' := True\<rparr>)"

subsection \<open>A concrete configuration\<close>

text \<open>
  Statuses and messages are numbers, the conversion adds 100, and the user's state is the
  list of the (status, reply) pairs its callbacks were called with, latest first.
\<close>

definition X0 :: "(nat, nat, nat) externals" where
  "X0 = \<lparr>kClusterIdKey = ''cluster_id'',
         GrpcStatusToRayStatus = (\<lambda>g. g + 100),
         grpc_Status_default = 0,
         ray_Status_default = 0,
         Reply_default = 0\<rparr>"

definition io0 :: instrumented_io_context where
  "io0 = \<lparr>stopped = False, handlers = [], stats = []\<rparr>"

definition log_reply :: "(nat, nat, (nat \<times> nat) list) ClientCallback" where
  "log_reply status reply w = (status, reply) # w"

definition call0 :: "(nat, nat, nat, nat, (nat \<times> nat) list) ClientCallImpl" where
  "call0 = \<lparr>reply_' = 7,
            callback_' = Some log_reply,
            stats_handle_' = Some (StatsHandle ''Ping'' 0),
            response_reader_' = Some (Finish 0 (StartCall (PrepareAsync 5 0))),
            status_' = 4,
            return_status_' = 0,
            context_' = \<lparr>ctx_deadline = None, ctx_metadata = []\<rparr>\<rparr>"

definition m0 :: "(nat, nat, nat, nat, (nat \<times> nat) list) ClientCallManager" where
  "m0 = \<lparr>cluster_id_' = Nil_ClusterID,
         main_service_' = io0\<lparr>stats := [''Ping'']\<rparr>,
         num_threads_' = 1,
         shutdown_' = False,
         rr_index_' = 1,
         cqs_' = [CompletionQueue],
         polling_threads_' = [0],
         call_timeout_ms_' = - 1,
         heap = [0 \<mapsto> call0],
         next_addr = 1,
         world = []\<rparr>"

definition ping :: "(nat, nat, nat, (nat \<times> nat) list) call_args" where
  "ping = (0, 5, None, ''Ping'', - 1)"

definition next0 :: "NextStatus \<Rightarrow> bool \<Rightarrow> nat \<Rightarrow> int \<Rightarrow> AsyncNext_result" where
  "next0 status ok index d = (status, Some 0, ok)"

section \<open>Properties\<close>

subsection \<open>What the operations return\<close>

lemma CreateCall_Inr_iff:
  "CreateCall X now request callback call_name method_timeout_ms m = Inr m' \<longleftrightarrow>
     (word_of_int (num_threads_' m) \<noteq> (0 :: 32 word) \<and>
      unat (rr_index_' m mod word_of_int (num_threads_' m)) < length (cqs_' m) \<and>
      m' = m\<lparr>main_service_' := snd (RecordStart call_name (main_service_' m)),
             rr_index_' := rr_index_' m + 1,
             heap := (heap m)(next_addr m \<mapsto>
               (new_ClientCallImpl X now callback (cluster_id_' m)
                  (fst (RecordStart call_name (main_service_' m)))
                  (if method_timeout_ms = - 1 then call_timeout_ms_' m else method_timeout_ms))
               \<lparr>response_reader_' := Some (Finish (next_addr m) (StartCall (PrepareAsync request
                    (unat (rr_index_' m mod word_of_int (num_threads_' m))))))\<rparr>),
             next_addr := next_addr m + 1\<rparr>)"
  by (auto simp: CreateCall_def Let_def split_def)

lemma SetClusterId_Inr_iff:
  "SetClusterId cluster_id m = Inr m' \<longleftrightarrow>
     ((IsNil (cluster_id_' m) \<or> cluster_id_' m = cluster_id) \<and>
      m' = m\<lparr>cluster_id_' := Nil_ClusterID\<rparr>)"
  by (auto simp: SetClusterId_def Let_def)

lemma PollIteration_got_event:
  assumes "index < length (cqs_' m)"
      and "AsyncNext index (now + 250) = (GOT_EVENT, Some t, ok)"
      and "heap m t = Some c"
      and "stats_handle_' c \<noteq> None"
  shows "PollIteration X index AsyncNext now m =
           Inr (Continue,
             if ok \<and> \<not> stopped (main_service_' m) \<and> \<not> shutdown_' m
             then m\<lparr>heap := (heap m)(t \<mapsto> SetReturnStatus X c),
                    main_service_' := post t (stats_handle_' c) (main_service_' m)\<rparr>
             else m\<lparr>heap := (heap m)(t := None)\<rparr>)"
  using assms
  by (simp add: PollIteration_def Let_def gpr_time_add_def gpr_time_from_millis_def
      GetStatsHandle_def SetReturnStatus_def)

lemma PollIteration_heap:
  assumes "PollIteration X index AsyncNext now m = Inr (e, m')"
      and "heap m' t = Some c'"
  shows "\<exists>c. heap m t = Some c \<and> stats_handle_' c' = stats_handle_' c"
  using assms
  by (auto simp: PollIteration_def Let_def SetReturnStatus_def post_def
      split: if_splits option.splits prod.splits)

subsection \<open>The cluster identity\<close>

lemma PollIteration_cluster_id:
  "PollIteration X index AsyncNext now m = Inr (e, m') \<Longrightarrow> cluster_id_' m' = cluster_id_' m"
  by (auto simp: PollIteration_def Let_def split: if_splits option.splits prod.splits)

lemma reachable_cluster_id_Nil:
  "reachable X m \<Longrightarrow> cluster_id_' m = Nil_ClusterID"
proof (induction rule: reachable.induct)
  case (r_new main_service w rand cluster_id num_threads call_timeout_ms m)
  then show ?case
    by (auto simp: new_ClientCallManager_def split: if_splits)
next
  case (r_create m now request callback call_name method_timeout_ms m')
  then show ?case
    by (auto simp: CreateCall_Inr_iff)
next
  case (r_set_id m cluster_id m')
  then show ?case
    by (simp add: SetClusterId_Inr_iff)
next
  case (r_poll m index AsyncNext now e m')
  then show ?case
    by (simp add: PollIteration_cluster_id)
next
  case (r_handler m t h m')
  then show ?case
    by (auto simp: posted_handler_def split: option.splits)
qed simp_all

lemma reachable_SetClusterId_returns:
  "reachable X m \<Longrightarrow> SetClusterId cluster_id m = Inr m"
  by (simp add: SetClusterId_Inr_iff reachable_cluster_id_Nil)

text \<open>
  C1. The spec has \<^verbatim>\<open>SetClusterId(V1); SetClusterId(V2)\<close> with two different non-nil
  values end in the fatal mismatch. In the code the first call stores the nil identity,
  not \<open>V1\<close>, so the second call finds nil and returns: on a new manager the two calls
  with "cluster-A" and "cluster-B" both return and leave the manager as it was built.
\<close>

theorem SetClusterId_mismatch_returns:
  "and_then
     (and_then (new_ClientCallManager io0 ([] :: (nat \<times> nat) list) 0 Nil_ClusterID 1 (- 1))
               (SetClusterId (ClusterID ''cluster-A'')))
     (SetClusterId (ClusterID ''cluster-B''))
   = (Inr \<lparr>cluster_id_' = Nil_ClusterID, main_service_' = io0, num_threads_' = 1,
           shutdown_' = False, rr_index_' = 0, cqs_' = [CompletionQueue],
           polling_threads_' = [0], call_timeout_ms_' = - 1, heap = Map.empty,
           next_addr = 0, world = []\<rparr>
      :: error + (nat, nat, nat, nat, (nat \<times> nat) list) ClientCallManager)"
  by (simp add: and_then_def new_ClientCallManager_def SetClusterId_def signed_modulo_int_def)

text \<open>
  C2. The spec has every call created after the identity was set to \<open>V\<close> carry the header
  \<open>V\<close>. In the code a manager constructed with "cluster-A", on which
  \<^verbatim>\<open>SetClusterId\<close> was then called with "cluster-A", creates a call whose context has
  no metadata at all.
\<close>

theorem CreateCall_after_SetClusterId_no_header:
  "observe (call_metadata 0)
     (and_then
        (and_then
           (new_ClientCallManager io0 ([] :: (nat \<times> nat) list) 0 (ClusterID ''cluster-A'') 1 (- 1))
           (SetClusterId (ClusterID ''cluster-A'')))
        (CreateCall X0 0 (5 :: nat) None ''Ping'' (- 1)))
   = Inr (Some [])"
  by (simp add: observe_def and_then_def new_ClientCallManager_def SetClusterId_def
      CreateCall_def RecordStart_def call_metadata_def new_ClientCallImpl_def Let_def)

text \<open>
  C8. Whenever \<^verbatim>\<open>SetClusterId\<close> returns, whatever its argument, the stored identity is
  nil, and a call created in that state carries no identity header.
\<close>

theorem SetClusterId_stores_Nil:
  assumes "SetClusterId cluster_id m = Inr m1"
  shows "cluster_id_' m1 = Nil_ClusterID \<and>
         (\<forall>X now request callback call_name method_timeout_ms m2.
            CreateCall X now request callback call_name method_timeout_ms m1 = Inr m2 \<longrightarrow>
            call_metadata (next_addr m1) m2 = Some [])"
proof -
  from assms have nil: "cluster_id_' m1 = Nil_ClusterID"
    by (simp add: SetClusterId_Inr_iff)
  have "call_metadata (next_addr m1) m2 = Some []"
    if "CreateCall X now request callback call_name method_timeout_ms m1 = Inr m2"
    for X now request callback call_name method_timeout_ms m2
    using that nil unfolding CreateCall_Inr_iff
    by (simp add: call_metadata_def new_ClientCallImpl_def Let_def set_deadline_def)
  with nil show ?thesis by blast
qed

theorem SetClusterId_stores_Nil_witness:
  "SetClusterId (ClusterID ''cluster-A'') m0 = Inr m0 \<and>
   cluster_id_' m0 = Nil_ClusterID \<and>
   observe (call_metadata 1) (CreateCall X0 0 5 None ''Ping'' (- 1) m0) = Inr (Some [])"
proof -
  have s: "SetClusterId (ClusterID ''cluster-A'') m0 = Inr m0"
    by (simp add: SetClusterId_Inr_iff m0_def)
  obtain m2 where c: "CreateCall X0 0 5 None ''Ping'' (- 1) m0 = Inr m2"
    by (simp add: CreateCall_Inr_iff m0_def)
  from SetClusterId_stores_Nil [OF s] c
  have "cluster_id_' m0 = Nil_ClusterID \<and> call_metadata (next_addr m0) m2 = Some []"
    by blast
  with s c show ?thesis by (simp add: observe_def m0_def)
qed

subsection \<open>Timeouts\<close>

lemma sint_deadline:
  fixes now t :: "64 word"
  assumes "- (2 ^ 63) \<le> 1000000 * sint t" and "1000000 * sint t < 2 ^ 63"
      and "- (2 ^ 63) \<le> sint now + 1000000 * sint t"
      and "sint now + 1000000 * sint t < 2 ^ 63"
  shows "sint (now + 1000000 * t) = sint now + 1000000 * sint t"
proof -
  have m: "sint (1000000 * t) = 1000000 * sint t"
    using assms(1,2) by (simp add: sint_word_ariths signed_take_bit_int_eq_self)
  have "sint (now + 1000000 * t) = signed_take_bit 63 (sint now + sint (1000000 * t))"
    by (subst sint_word_ariths(1)) simp
  also have "\<dots> = signed_take_bit 63 (sint now + 1000000 * sint t)"
    by (simp only: m)
  also have "\<dots> = sint now + 1000000 * sint t"
    using assms(3,4) by (simp add: signed_take_bit_int_eq_self)
  finally show ?thesis .
qed

text \<open>
  C6. The timeout of a created call is the \<open>method_timeout_ms\<close> argument unless that is
  the sentinel \<open>-1\<close>, and the manager's \<open>call_timeout_ms_\<close> then; the context of the call
  has a deadline exactly when that timeout is not \<open>-1\<close>. The deadline is the clock
  reading plus the timeout in nanoseconds, computed on 64 bits; where neither the
  conversion to nanoseconds nor the addition overflows, it is that sum as a number.
\<close>

theorem CreateCall_timeout:
  assumes "CreateCall X now request callback call_name method_timeout_ms m = Inr m'"
  shows "\<exists>call. heap m' (next_addr m) = Some call \<and>
           (let t = (if method_timeout_ms = - 1 then call_timeout_ms_' m
                     else method_timeout_ms)
            in (ctx_deadline (context_' call) \<noteq> None \<longleftrightarrow> t \<noteq> - 1) \<and>
               ctx_deadline (context_' call) =
                 (if t = - 1 then None else Some (now + 1000000 * t)) \<and>
               (t \<noteq> - 1 \<and>
                - (2 ^ 63) \<le> 1000000 * sint t \<and> 1000000 * sint t < 2 ^ 63 \<and>
                - (2 ^ 63) \<le> sint now + 1000000 * sint t \<and>
                sint now + 1000000 * sint t < 2 ^ 63 \<longrightarrow>
                (\<exists>d. ctx_deadline (context_' call) = Some d \<and>
                      sint d = sint now + 1000000 * sint t)))"
  using assms unfolding CreateCall_Inr_iff
  by (simp add: new_ClientCallImpl_def Let_def set_deadline_def AddMetadata_def sint_deadline)

theorem CreateCall_timeout_witness:
  "\<exists>m1 call1 m2 call2.
      CreateCall X0 10 5 None ''Ping'' 5000 m0 = Inr m1 \<and>
      heap m1 1 = Some call1 \<and> ctx_deadline (context_' call1) = Some 5000000010 \<and>
      CreateCall X0 10 5 None ''Ping'' (- 1) m0 = Inr m2 \<and>
      heap m2 1 = Some call2 \<and> ctx_deadline (context_' call2) = None"
proof -
  obtain m1 where h1: "CreateCall X0 10 5 None ''Ping'' 5000 m0 = Inr m1"
    by (simp add: CreateCall_Inr_iff m0_def)
  obtain m2 where h2: "CreateCall X0 10 5 None ''Ping'' (- 1) m0 = Inr m2"
    by (simp add: CreateCall_Inr_iff m0_def)
  from CreateCall_timeout [OF h1] CreateCall_timeout [OF h2] h1 h2 show ?thesis
    by (auto simp: m0_def Let_def)
qed

text \<open>
  Beyond that range the deadline wraps: with the largest 64-bit timeout and the clock at
  10 ms, it is 9 ms.
\<close>

lemma CreateCall_timeout_wraps:
  "observe (\<lambda>m. map_option (\<lambda>c. ctx_deadline (context_' c)) (heap m 1))
     (CreateCall X0 10000000 5 None ''Ping'' 9223372036854775807 m0) = Inr (Some (Some 9000000))"
  by (simp add: observe_def CreateCall_def RecordStart_def new_ClientCallImpl_def Let_def
      set_deadline_def m0_def)

subsection \<open>Round-robin choice of the completion queue\<close>

lemma unat_word_of_int_32:
  assumes "0 \<le> k" and "k < 2 ^ 32"
  shows "unat (word_of_int k :: 32 word) = nat k"
proof -
  from assms have "take_bit 32 k = k"
    by (simp add: take_bit_int_eq_self)
  then show ?thesis
    by (simp add: unat_eq_nat_uint unsigned_of_int)
qed

lemma unat_num_threads:
  assumes "0 < P" and "P < 2 ^ 31"
  shows "unat (word_of_int P :: 32 word) = nat P"
  using assms by (intro unat_word_of_int_32) simp_all

lemma round_robin_index:
  assumes "0 < P" and "P < 2 ^ 31"
  shows "(word_of_int P :: 32 word) \<noteq> 0"
    and "unat (r mod (word_of_int P :: 32 word)) = unat r mod nat P"
    and "unat (r mod (word_of_int P :: 32 word)) < nat P"
proof -
  have u: "unat (word_of_int P :: 32 word) = nat P"
    by (rule unat_num_threads [OF assms])
  show "(word_of_int P :: 32 word) \<noteq> 0"
  proof
    assume "(word_of_int P :: 32 word) = 0"
    then have "unat (word_of_int P :: 32 word) = 0" by simp
    with u assms(1) show False by simp
  qed
  show m: "unat (r mod (word_of_int P :: 32 word)) = unat r mod nat P"
    by (simp add: unat_mod u)
  show "unat (r mod (word_of_int P :: 32 word)) < nat P"
    unfolding m using assms(1) by simp
qed

lemma CreateCalls_round_robin:
  assumes "0 < P" and "P < 2 ^ 31"
  shows "num_threads_' m = P \<Longrightarrow> length (cqs_' m) = nat P \<Longrightarrow>
         \<exists>m'. CreateCalls X as m = Inr m' \<and>
              (\<forall>t<next_addr m. heap m' t = heap m t) \<and>
              (\<forall>i<length as. call_channel (next_addr m + i) m' =
                                Some (unat (rr_index_' m + of_nat i) mod nat P))"
proof (induction as arbitrary: m)
  case Nil
  then show ?case by simp
next
  case (Cons a as)
  obtain now request callback call_name method_timeout_ms
    where a: "a = (now, request, callback, call_name, method_timeout_ms)"
    by (cases a) auto
  let ?i = "unat (rr_index_' m mod word_of_int (num_threads_' m))"
  obtain m1 where m1: "CreateCall X now request callback call_name method_timeout_ms m = Inr m1"
    using round_robin_index(1,3) [OF assms] Cons.prems
    by (simp add: CreateCall_Inr_iff)
  from m1 have f: "num_threads_' m1 = P" "length (cqs_' m1) = nat P"
    "next_addr m1 = next_addr m + 1" "rr_index_' m1 = rr_index_' m + 1"
    "\<forall>t<next_addr m. heap m1 t = heap m t"
    "call_channel (next_addr m) m1 = Some (unat (rr_index_' m) mod nat P)"
    using Cons.prems round_robin_index(2) [OF assms]
    unfolding CreateCall_Inr_iff
    by (simp_all add: call_channel_def Finish_def StartCall_def PrepareAsync_def)
  from Cons.IH [OF f(1) f(2)] obtain m' where
    m': "CreateCalls X as m1 = Inr m'"
      "\<forall>t<next_addr m1. heap m' t = heap m1 t"
      "\<forall>i<length as. call_channel (next_addr m1 + i) m' =
          Some (unat (rr_index_' m1 + of_nat i) mod nat P)"
    by blast
  have run: "CreateCalls X (a # as) m = Inr m'"
    using m1 m'(1) by (simp add: a and_then_def)
  have old: "\<forall>t<next_addr m. heap m' t = heap m t"
    using m'(2) f(3) f(5) by simp
  have chan: "call_channel (next_addr m + i) m' = Some (unat (rr_index_' m + of_nat i) mod nat P)"
    if "i < length (a # as)" for i
  proof (cases i)
    case 0
    have "heap m' (next_addr m) = heap m1 (next_addr m)"
      using m'(2) f(3) by simp
    then have "call_channel (next_addr m) m' = call_channel (next_addr m) m1"
      by (simp add: call_channel_def)
    with f(6) 0 show ?thesis by simp
  next
    case (Suc j)
    with that have "j < length as" by simp
    with m'(3) have "call_channel (next_addr m1 + j) m' =
        Some (unat (rr_index_' m1 + of_nat j) mod nat P)"
      by blast
    moreover have "next_addr m1 + j = next_addr m + i"
      using Suc f(3) by simp
    moreover have "rr_index_' m1 + of_nat j = rr_index_' m + of_nat i"
      using Suc f(4) by (simp add: ac_simps)
    ultimately show ?thesis by simp
  qed
  from run old chan show ?case by blast
qed

text \<open>
  C3, as the spec has it, fails: the counter does not start at 0 but at
  \<^verbatim>\<open>rand() % num_threads_\<close>. With two threads and \<^verbatim>\<open>rand()\<close> returning 1, three
  calls go to the queues 1, 0, 1 and not to 0, 1, 0.
\<close>

theorem round_robin_start_counterexample:
  "observe (call_channels [0, 1, 2])
     (and_then (new_ClientCallManager io0 ([] :: (nat \<times> nat) list) 1 Nil_ClusterID 2 (- 1))
               (CreateCalls X0 [ping, ping, ping]))
   = Inr [Some 1, Some 0, Some 1] \<and>
   observe (call_channels [0, 1, 2])
     (and_then (new_ClientCallManager io0 ([] :: (nat \<times> nat) list) 1 Nil_ClusterID 2 (- 1))
               (CreateCalls X0 [ping, ping, ping]))
   \<noteq> Inr [Some (0 mod 2), Some (1 mod 2), Some (2 mod 2)]"
  by (simp add: observe_def and_then_def new_ClientCallManager_def signed_modulo_int_def
      ping_def CreateCall_def RecordStart_def Let_def call_channels_def call_channel_def
      Finish_def StartCall_def PrepareAsync_def)

text \<open>
  C3, amended. On a manager constructed with \<open>P\<close> threads (\<open>0 < P\<close>, an \<^verbatim>\<open>int\<close>) the
  counter starts at \<open>rand mod P\<close>, and the \<open>i\<close>-th call created (from 0) is bound to
  the queue (counter + \<open>i\<close>, wrapping at \<open>2 ^ 32\<close>) \<open>mod P\<close>. As long as the counter has
  not wrapped this is the queue \<open>(rand + i) mod P\<close>: strict cyclic order, starting at
  \<open>rand mod P\<close>.
\<close>

theorem round_robin_from_counter:
  assumes "0 < P" and "P < 2 ^ 31" and "0 \<le> rand"
  shows "\<exists>m m'. new_ClientCallManager main_service w rand cluster_id P call_timeout_ms = Inr m \<and>
           CreateCalls X as m = Inr m' \<and>
           rr_index_' m = word_of_int (rand mod P) \<and>
           (\<forall>i<length as. call_channel i m' =
              Some (unat (rr_index_' m + of_nat i) mod nat P)) \<and>
           (\<forall>i<length as. rand mod P + int i < 2 ^ 32 \<longrightarrow>
              call_channel i m' = Some (nat ((rand + int i) mod P)))"
proof -
  let ?m = "\<lparr>cluster_id_' = Nil_ClusterID, main_service_' = main_service, num_threads_' = P,
             shutdown_' = False, rr_index_' = word_of_int (rand mod P),
             cqs_' = replicate (nat P) CompletionQueue, polling_threads_' = [0..<nat P],
             call_timeout_ms_' = call_timeout_ms, heap = Map.empty, next_addr = 0, world = w\<rparr>"
  have smod: "rand smod P = rand mod P"
    using assms(1,3) by (simp add: signed_modulo_int_def sgn_if)
  have new: "new_ClientCallManager main_service w rand cluster_id P call_timeout_ms = Inr ?m"
    using assms(1) by (simp add: new_ClientCallManager_def smod)
  from CreateCalls_round_robin [OF assms(1,2), of ?m X as] obtain m' where
    m': "CreateCalls X as ?m = Inr m'"
      "\<forall>i<length as. call_channel i m' = Some (unat (rr_index_' ?m + of_nat i) mod nat P)"
    by auto
  have exact: "call_channel i m' = Some (nat ((rand + int i) mod P))"
    if "i < length as" and "rand mod P + int i < 2 ^ 32" for i
  proof -
    have nn: "0 \<le> rand mod P + int i" using assms(1) by simp
    have e: "(word_of_int (rand mod P) + of_nat i :: 32 word) = word_of_int (rand mod P + int i)"
      by simp
    have "unat (word_of_int (rand mod P + int i) :: 32 word) = nat (rand mod P + int i)"
      using nn that(2) by (rule unat_word_of_int_32)
    then have "unat (word_of_int (rand mod P) + of_nat i :: 32 word) = nat (rand mod P + int i)"
      by (simp only: e)
    moreover have "nat (rand mod P + int i) mod nat P = nat ((rand mod P + int i) mod P)"
      using assms(1) nn by (simp add: nat_mod_distrib)
    moreover have "(rand mod P + int i) mod P = (rand + int i) mod P"
      by (simp add: mod_add_left_eq)
    ultimately show ?thesis using m'(2) that(1) by simp
  qed
  from new m' exact show ?thesis by auto
qed

theorem round_robin_from_counter_witness:
  "\<exists>m m'. new_ClientCallManager io0 ([] :: (nat \<times> nat) list) 7 Nil_ClusterID 3 (- 1) = Inr m \<and>
      CreateCalls X0 [ping, ping, ping, ping] m = Inr m' \<and>
      call_channels [0, 1, 2, 3] m' = [Some 1, Some 2, Some 0, Some 1]"
proof -
  have h: "(0 :: int) < 3" "(3 :: int) < 2 ^ 31" "(0 :: int) \<le> 7"
    by simp_all
  from round_robin_from_counter [OF h, of io0 "[]" Nil_ClusterID "- 1" X0
      "[ping, ping, ping, ping]"]
  obtain m m' where
    r: "new_ClientCallManager io0 ([] :: (nat \<times> nat) list) 7 Nil_ClusterID 3 (- 1) = Inr m"
      "CreateCalls X0 [ping, ping, ping, ping] m = Inr m'"
      "\<forall>i<length [ping, ping, ping, ping]. (7 :: int) mod 3 + int i < 2 ^ 32 \<longrightarrow>
         call_channel i m' = Some (nat ((7 + int i) mod 3))"
    by blast
  have "call_channel 0 m' = Some 1" "call_channel 1 m' = Some 2"
    "call_channel 2 m' = Some 0" "call_channel 3 m' = Some 1"
    using r(3) [rule_format, of 0] r(3) [rule_format, of 1]
      r(3) [rule_format, of 2] r(3) [rule_format, of 3]
    by simp_all
  with r(1,2) show ?thesis
    by (auto simp: call_channels_def)
qed

subsection \<open>The polling loop\<close>

lemma PollEvents_timeouts:
  assumes "index < length (cqs_' m)"
      and "\<not> shutdown_' m"
      and "\<forall>(now, AsyncNext) \<in> set answers. fst (AsyncNext index (now + 250)) = TIMEOUT"
  shows "PollEventsFromCompletionQueue X index answers m = Inr (False, m)"
  using assms
proof (induction answers)
  case Nil
  then show ?case by simp
next
  case (Cons a answers)
  obtain now AsyncNext where a: "a = (now, AsyncNext)"
    by (cases a)
  with Cons.prems(3) have "fst (AsyncNext index (now + 250)) = TIMEOUT"
    by simp
  then have "PollIteration X index AsyncNext now m = Inr (Continue, m)"
    using Cons.prems(1,2)
    by (simp add: PollIteration_def Let_def gpr_time_add_def gpr_time_from_millis_def split_def)
  with Cons a show ?case by simp
qed

lemma PollEvents_shutdown:
  assumes "index < length (cqs_' m)"
      and "\<not> shutdown_' m"
      and "\<forall>(now, AsyncNext) \<in> set answers. fst (AsyncNext index (now + 250)) = TIMEOUT"
      and "fst (AsyncNext index (now + 250)) = SHUTDOWN"
  shows "PollEventsFromCompletionQueue X index (answers @ (now, AsyncNext) # rest) m =
           Inr (True, m)"
  using assms(1-3)
proof (induction answers)
  case Nil
  show ?case
    using assms(1,4)
    by (simp add: PollIteration_def Let_def gpr_time_add_def gpr_time_from_millis_def split_def)
next
  case (Cons a answers)
  obtain now' AsyncNext' where a: "a = (now', AsyncNext')"
    by (cases a)
  with Cons.prems(3) have "fst (AsyncNext' index (now' + 250)) = TIMEOUT"
    by simp
  then have "PollIteration X index AsyncNext' now' m = Inr (Continue, m)"
    using Cons.prems(1,2)
    by (simp add: PollIteration_def Let_def gpr_time_add_def gpr_time_from_millis_def split_def)
  with Cons a show ?case by simp
qed

lemma PollIteration_flags:
  "PollIteration X index AsyncNext now m = Inr (e, m') \<Longrightarrow>
     shutdown_' m' = shutdown_' m \<and> cqs_' m' = cqs_' m"
  by (auto simp: PollIteration_def Let_def split: if_splits option.splits prod.splits)

lemma PollIteration_break:
  assumes "index < length (cqs_' m)"
      and "AsyncNext index (now + 250) = (status, got_tag, ok)"
  shows "(\<exists>m'. PollIteration X index AsyncNext now m = Inr (Break, m')) \<longleftrightarrow>
           (status = SHUTDOWN \<or> (status = TIMEOUT \<and> shutdown_' m))"
    and "status = SHUTDOWN \<or> (status = TIMEOUT \<and> shutdown_' m) \<Longrightarrow>
           PollIteration X index AsyncNext now m = Inr (Break, m)"
    and "status = TIMEOUT \<Longrightarrow> \<not> shutdown_' m \<Longrightarrow>
           PollIteration X index AsyncNext now m = Inr (Continue, m)"
  using assms
  by (cases status;
      auto simp: PollIteration_def Let_def gpr_time_add_def gpr_time_from_millis_def
        split: option.splits)+

lemma PollEvents_exit_only:
  "PollEventsFromCompletionQueue X index answers m = Inr (True, m') \<Longrightarrow>
     \<exists>(now, AsyncNext) \<in> set answers.
        fst (AsyncNext index (now + 250)) = SHUTDOWN \<or>
        (fst (AsyncNext index (now + 250)) = TIMEOUT \<and> shutdown_' m)"
proof (induction answers arbitrary: m)
  case Nil
  then show ?case by simp
next
  case (Cons a answers)
  obtain now AsyncNext where a: "a = (now, AsyncNext)"
    by (cases a)
  obtain status got_tag ok where n: "AsyncNext index (now + 250) = (status, got_tag, ok)"
    by (cases "AsyncNext index (now + 250)")
  show ?case
  proof (cases "PollIteration X index AsyncNext now m")
    case (Inl err)
    with Cons.prems a show ?thesis by simp
  next
    case (Inr r)
    obtain e m1 where r: "r = (e, m1)" by (cases r)
    have len: "index < length (cqs_' m)"
      using Inr by (auto simp: PollIteration_def Let_def split: if_splits)
    show ?thesis
    proof (cases e)
      case Break
      with Inr r PollIteration_break(1) [where X = X and AsyncNext = AsyncNext and
          index = index and now = now and m = m and status = status and got_tag = got_tag and
          ok = ok, OF len n]
      have "status = SHUTDOWN \<or> (status = TIMEOUT \<and> shutdown_' m)"
        by blast
      with a n show ?thesis by auto
    next
      case Continue
      with Cons.prems a Inr r
      have "PollEventsFromCompletionQueue X index answers m1 = Inr (True, m')"
        by simp
      from Cons.IH [OF this] PollIteration_flags [of X index AsyncNext now m e m1] Inr r
      show ?thesis by auto
    qed
  qed
qed

text \<open>
  C7. The polling loop, run against the answers of its completion queue: each iteration
  asks the queue for the next event with the deadline "now plus 250 ms", and nothing else
  of the queue matters to the loop. On \<open>SHUTDOWN\<close>, or on \<open>TIMEOUT\<close> with the shutdown
  flag set, the loop is left at once, whatever answers would follow. On \<open>TIMEOUT\<close>
  without the flag it goes on with the next answer and the state unchanged; on an event it
  goes on with the next answer after handling the event. With no answer left the loop has
  not been left, and a loop that was left has seen one of the two answers that end it.
\<close>

theorem PollEventsFromCompletionQueue_exit:
  assumes "index < length (cqs_' m)"
      and "AsyncNext index (now + 250) = (status, got_tag, ok)"
  shows "PollEventsFromCompletionQueue X index ((now, AsyncNext) # rest) m =
           (if status = SHUTDOWN \<or> (status = TIMEOUT \<and> shutdown_' m) then Inr (True, m)
            else if status = TIMEOUT then PollEventsFromCompletionQueue X index rest m
            else case PollIteration X index AsyncNext now m of
                   Inl err \<Rightarrow> Inl err
                 | Inr (e, m') \<Rightarrow> PollEventsFromCompletionQueue X index rest m') \<and>
         ((\<exists>m'. PollIteration X index AsyncNext now m = Inr (Break, m')) \<longleftrightarrow>
            (status = SHUTDOWN \<or> (status = TIMEOUT \<and> shutdown_' m))) \<and>
         (\<forall>N. N index (now + 250) = AsyncNext index (now + 250) \<longrightarrow>
            PollEventsFromCompletionQueue X index ((now, N) # rest) m =
            PollEventsFromCompletionQueue X index ((now, AsyncNext) # rest) m) \<and>
         PollEventsFromCompletionQueue X index [] m = Inr (False, m) \<and>
         (\<forall>answers m'.
            PollEventsFromCompletionQueue X index answers m = Inr (True, m') \<longrightarrow>
            (\<exists>(now', N) \<in> set answers.
               fst (N index (now' + 250)) = SHUTDOWN \<or>
               (fst (N index (now' + 250)) = TIMEOUT \<and> shutdown_' m)))"
proof -
  note b = PollIteration_break [where X = X and AsyncNext = AsyncNext and index = index and
      now = now and m = m and status = status and got_tag = got_tag and ok = ok, OF assms]
  have step: "PollEventsFromCompletionQueue X index ((now, AsyncNext) # rest) m =
           (if status = SHUTDOWN \<or> (status = TIMEOUT \<and> shutdown_' m) then Inr (True, m)
            else if status = TIMEOUT then PollEventsFromCompletionQueue X index rest m
            else case PollIteration X index AsyncNext now m of
                   Inl err \<Rightarrow> Inl err
                 | Inr (e, m') \<Rightarrow> PollEventsFromCompletionQueue X index rest m')"
  proof (cases "status = SHUTDOWN \<or> (status = TIMEOUT \<and> shutdown_' m)")
    case True
    with b(2) show ?thesis by simp
  next
    case False
    show ?thesis
    proof (cases "status = TIMEOUT")
      case True
      with False b(3) show ?thesis by simp
    next
      case nt: False
      have "e = Continue" if "PollIteration X index AsyncNext now m = Inr (e, m')" for e m'
        using that b(1) False by (cases e) auto
      then show ?thesis
        using False nt
        by (auto split: sum.splits prod.splits loop_exit.splits)
    qed
  qed
  have same: "PollEventsFromCompletionQueue X index ((now, N) # rest) m =
              PollEventsFromCompletionQueue X index ((now, AsyncNext) # rest) m"
    if "N index (now + 250) = AsyncNext index (now + 250)" for N
  proof -
    have "PollIteration X index N now m = PollIteration X index AsyncNext now m"
      using that
      by (simp add: PollIteration_def Let_def gpr_time_add_def gpr_time_from_millis_def)
    then show ?thesis by simp
  qed
  have same_all: "\<forall>N. N index (now + 250) = AsyncNext index (now + 250) \<longrightarrow>
            PollEventsFromCompletionQueue X index ((now, N) # rest) m =
            PollEventsFromCompletionQueue X index ((now, AsyncNext) # rest) m"
    using same by blast
  have empty: "PollEventsFromCompletionQueue X index [] m = Inr (False, m)"
    by simp
  have only: "\<forall>answers m'.
            PollEventsFromCompletionQueue X index answers m = Inr (True, m') \<longrightarrow>
            (\<exists>(now', N) \<in> set answers.
               fst (N index (now' + 250)) = SHUTDOWN \<or>
               (fst (N index (now' + 250)) = TIMEOUT \<and> shutdown_' m))"
    by (intro allI impI) (rule PollEvents_exit_only)
  show ?thesis
    by (intro conjI; (fact step | fact b(1) | fact same_all | fact empty | fact only))
qed

theorem PollEventsFromCompletionQueue_exit_witness:
  "PollEventsFromCompletionQueue X0 0
     [(0, next0 TIMEOUT False), (0, next0 SHUTDOWN False), (0, next0 TIMEOUT False)] m0 =
     Inr (True, m0) \<and>
   PollEventsFromCompletionQueue X0 0
     [(0, next0 TIMEOUT False), (0, next0 TIMEOUT False)] (m0\<lparr>shutdown_' := True\<rparr>) =
     Inr (True, m0\<lparr>shutdown_' := True\<rparr>) \<and>
   PollEventsFromCompletionQueue X0 0
     [(0, next0 TIMEOUT False), (0, next0 TIMEOUT False)] m0 =
     Inr (False, m0)"
proof -
  have a: "0 < length (cqs_' m0)" "0 < length (cqs_' (m0\<lparr>shutdown_' := True\<rparr>))"
    "\<not> shutdown_' m0" "shutdown_' (m0\<lparr>shutdown_' := True\<rparr>)"
    by (simp_all add: m0_def)
  have n: "next0 status False 0 (0 + 250) = (status, Some 0, False)" for status
    by (simp add: next0_def)
  have e1: "PollEventsFromCompletionQueue X0 0 ((0, next0 TIMEOUT False) # rest) m0 =
            PollEventsFromCompletionQueue X0 0 rest m0" for rest
    using PollEventsFromCompletionQueue_exit [where X = X0 and AsyncNext = "next0 TIMEOUT False"
        and index = 0 and now = 0 and m = m0 and status = TIMEOUT and got_tag = "Some 0"
        and ok = False and rest = rest] a n
    by (simp del: PollEventsFromCompletionQueue.simps)
  have e2: "PollEventsFromCompletionQueue X0 0 ((0, next0 SHUTDOWN False) # rest) m0 =
            Inr (True, m0)" for rest
    using PollEventsFromCompletionQueue_exit [where X = X0 and AsyncNext = "next0 SHUTDOWN False"
        and index = 0 and now = 0 and m = m0 and status = SHUTDOWN and got_tag = "Some 0"
        and ok = False and rest = rest] a n
    by (simp del: PollEventsFromCompletionQueue.simps)
  have e3: "PollEventsFromCompletionQueue X0 0 ((0, next0 TIMEOUT False) # rest)
              (m0\<lparr>shutdown_' := True\<rparr>) = Inr (True, m0\<lparr>shutdown_' := True\<rparr>)" for rest
    using PollEventsFromCompletionQueue_exit [where X = X0 and AsyncNext = "next0 TIMEOUT False"
        and index = 0 and now = 0 and m = "m0\<lparr>shutdown_' := True\<rparr>" and status = TIMEOUT
        and got_tag = "Some 0" and ok = False and rest = rest] a n
    by (simp del: PollEventsFromCompletionQueue.simps)
  have e4: "PollEventsFromCompletionQueue X0 0 [] m0 = Inr (False, m0)"
    using PollEventsFromCompletionQueue_exit [where X = X0 and AsyncNext = "next0 TIMEOUT False"
        and index = 0 and now = 0 and m = m0 and status = TIMEOUT and got_tag = "Some 0"
        and ok = False and rest = "[]"] a n
    by (simp del: PollEventsFromCompletionQueue.simps)
  show ?thesis
    by (simp only: e1 e2 e3 e4)
qed

text \<open>
  C4. When the queue yields an event whose tag is a live call (with the stats handle that
  the check of the loop requires), the call is posted to the event loop, and stays
  allocated, exactly when \<open>ok\<close> holds, the event loop is not stopped and the shutdown
  flag is not set; the posted handler, run by the event loop, then calls the callback of
  the call (if it has one) with the converted status and the reply, and deletes the call.
  In every other case nothing is posted and the call is deleted at once. The polling
  thread itself never runs the callback: after the iteration the user's state is as
  before.
\<close>

theorem PollIteration_dispatch:
  assumes "index < length (cqs_' m)"
      and "AsyncNext index (now + 250) = (GOT_EVENT, Some t, ok)"
      and "heap m t = Some c"
      and "stats_handle_' c \<noteq> None"
  shows "\<exists>m'. PollIteration X index AsyncNext now m = Inr (Continue, m') \<and>
           world m' = world m \<and>
           ((handlers (main_service_' m') = handlers (main_service_' m) @ [(t, stats_handle_' c)] \<and>
             heap m' t \<noteq> None)
            \<longleftrightarrow> (ok \<and> \<not> stopped (main_service_' m) \<and> \<not> shutdown_' m)) \<and>
           ((handlers (main_service_' m') = handlers (main_service_' m) \<and> heap m' t = None)
            \<longleftrightarrow> \<not> (ok \<and> \<not> stopped (main_service_' m) \<and> \<not> shutdown_' m)) \<and>
           (ok \<and> \<not> stopped (main_service_' m) \<and> \<not> shutdown_' m \<longrightarrow>
              (\<exists>m''. posted_handler t m' = Inr m'' \<and>
                     heap m'' t = None \<and>
                     world m'' =
                       (case callback_' c of
                          None \<Rightarrow> world m
                        | Some cb \<Rightarrow>
                            cb (GrpcStatusToRayStatus X (status_' c)) (reply_' c) (world m))))"
  using assms
  by (simp add: PollIteration_got_event [where t = t and ok = ok and c = c] post_def
      posted_handler_def OnReplyReceived_def SetReturnStatus_def split: option.splits)

theorem PollIteration_dispatch_witness:
  "\<exists>m1 m1' m2 m3.
     PollIteration X0 0 (next0 GOT_EVENT True) 0 m0 = Inr (Continue, m1) \<and>
     handlers (main_service_' m1) = [(0, Some (StatsHandle ''Ping'' 0))] \<and> heap m1 0 \<noteq> None \<and>
     world m1 = [] \<and>
     posted_handler 0 m1 = Inr m1' \<and> heap m1' 0 = None \<and> world m1' = [(104, 7)] \<and>
     PollIteration X0 0 (next0 GOT_EVENT False) 0 m0 = Inr (Continue, m2) \<and>
     handlers (main_service_' m2) = [] \<and> heap m2 0 = None \<and> world m2 = [] \<and>
     PollIteration X0 0 (next0 GOT_EVENT True) 0 (m0\<lparr>shutdown_' := True\<rparr>) = Inr (Continue, m3) \<and>
     handlers (main_service_' m3) = [] \<and> heap m3 0 = None \<and> world m3 = []"
proof -
  have a: "0 < length (cqs_' m0)" "heap m0 0 = Some call0" "stats_handle_' call0 \<noteq> None"
    by (simp_all add: m0_def call0_def)
  have b: "0 < length (cqs_' (m0\<lparr>shutdown_' := True\<rparr>))"
    "heap (m0\<lparr>shutdown_' := True\<rparr>) 0 = Some call0"
    by (simp_all add: m0_def)
  have n: "next0 GOT_EVENT ok 0 (0 + 250) = (GOT_EVENT, Some 0, ok)" for ok
    by (simp add: next0_def)
  from PollIteration_dispatch [where X = X0 and AsyncNext = "next0 GOT_EVENT True" and
         index = 0 and now = 0 and m = m0 and t = 0 and ok = True and c = call0]
       PollIteration_dispatch [where X = X0 and AsyncNext = "next0 GOT_EVENT False" and
         index = 0 and now = 0 and m = m0 and t = 0 and ok = False and c = call0]
       PollIteration_dispatch [where X = X0 and AsyncNext = "next0 GOT_EVENT True" and
         index = 0 and now = 0 and m = "m0\<lparr>shutdown_' := True\<rparr>" and t = 0 and
         ok = True and c = call0]
       a b n
  show ?thesis
    by (simp add: m0_def io0_def call0_def X0_def log_reply_def) blast
qed

text \<open>
  C5. For a call that is posted, the iteration first stores the converted gRPC status in
  the call (\<^verbatim>\<open>SetReturnStatus\<close>), so that \<^verbatim>\<open>GetStatus\<close> yields it; the posted
  handler, run in any later state in which the call is as the iteration left it, calls
  the callback with that status and the reply of the call.
\<close>

theorem delivered_status:
  assumes "index < length (cqs_' m)"
      and "AsyncNext index (now + 250) = (GOT_EVENT, Some t, True)"
      and "heap m t = Some c"
      and "stats_handle_' c \<noteq> None"
      and "\<not> stopped (main_service_' m)"
      and "\<not> shutdown_' m"
      and "callback_' c = Some cb"
  shows "\<exists>m1 c1. PollIteration X index AsyncNext now m = Inr (Continue, m1) \<and>
           heap m1 t = Some c1 \<and>
           GetStatus c1 = GrpcStatusToRayStatus X (status_' c) \<and>
           (\<forall>m2. heap m2 t = Some c1 \<longrightarrow>
              observe world (posted_handler t m2) =
                Inr (cb (GrpcStatusToRayStatus X (status_' c)) (reply_' c) (world m2)))"
  using assms
  by (simp add: PollIteration_got_event [where t = t and ok = True and c = c]
      GetStatus_def SetReturnStatus_def posted_handler_def observe_def OnReplyReceived_def)

theorem delivered_status_witness:
  "\<exists>m1 c1. PollIteration X0 0 (next0 GOT_EVENT True) 0 m0 = Inr (Continue, m1) \<and>
      heap m1 0 = Some c1 \<and> GetStatus c1 = 104 \<and>
      observe world (posted_handler 0 m1) = Inr [(104, 7)]"
proof -
  have a: "0 < length (cqs_' m0)" "heap m0 0 = Some call0" "stats_handle_' call0 \<noteq> None"
    "\<not> stopped (main_service_' m0)" "\<not> shutdown_' m0" "callback_' call0 = Some log_reply"
    "next0 GOT_EVENT True 0 (0 + 250) = (GOT_EVENT, Some 0, True)"
    by (simp_all add: m0_def call0_def io0_def next0_def)
  from delivered_status [where X = X0 and AsyncNext = "next0 GOT_EVENT True" and index = 0
      and now = 0 and m = m0 and t = 0 and c = call0 and cb = log_reply] a
  obtain m1 c1 where
    p: "PollIteration X0 0 (next0 GOT_EVENT True) 0 m0 = Inr (Continue, m1)"
      "heap m1 0 = Some c1"
      "GetStatus c1 = GrpcStatusToRayStatus X0 (status_' call0)"
      "\<forall>m2. heap m2 0 = Some c1 \<longrightarrow> observe world (posted_handler 0 m2) =
         Inr (log_reply (GrpcStatusToRayStatus X0 (status_' call0)) (reply_' call0) (world m2))"
    by blast
  have w: "world m1 = []"
    using p(1) a
    by (auto simp: PollIteration_got_event [where t = 0 and ok = True and c = call0] m0_def)
  from p(4) p(2) have "observe world (posted_handler 0 m1) =
      Inr (log_reply (GrpcStatusToRayStatus X0 (status_' call0)) (reply_' call0) (world m1))"
    by blast
  with p w show ?thesis
    by (simp add: X0_def call0_def log_reply_def)
qed

subsection \<open>Delivery without a callback\<close>

text \<open>
  C9. For a call whose callback is empty, \<^verbatim>\<open>OnReplyReceived\<close> leaves the user's state
  as it is, and the posted handler ends without error, its only effect being that the
  call (and with it the call's reference to the stats handle) is deleted.
\<close>

theorem OnReplyReceived_null_callback:
  assumes "heap m t = Some c"
      and "callback_' c = None"
  shows "OnReplyReceived c (world m) = world m \<and>
         posted_handler t m = Inr (m\<lparr>heap := (heap m)(t := None)\<rparr>)"
  using assms by (simp add: OnReplyReceived_def posted_handler_def)

theorem OnReplyReceived_null_callback_witness:
  "heap (m0\<lparr>heap := [0 \<mapsto> call0\<lparr>callback_' := None\<rparr>]\<rparr>) 0 = Some (call0\<lparr>callback_' := None\<rparr>) \<and>
   callback_' (call0\<lparr>callback_' := None\<rparr>) = None \<and>
   posted_handler 0 (m0\<lparr>heap := [0 \<mapsto> call0\<lparr>callback_' := None\<rparr>]\<rparr>) = Inr (m0\<lparr>heap := Map.empty\<rparr>)"
proof -
  have a: "heap (m0\<lparr>heap := [0 \<mapsto> call0\<lparr>callback_' := None\<rparr>]\<rparr>) 0 = Some (call0\<lparr>callback_' := None\<rparr>)"
    "callback_' (call0\<lparr>callback_' := None\<rparr>) = None"
    by simp_all
  from OnReplyReceived_null_callback [OF a] a show ?thesis by simp
qed

subsection \<open>The stats handle of a call\<close>

lemma reachable_stats_handle:
  "reachable X m \<Longrightarrow> heap m t = Some c \<Longrightarrow> stats_handle_' c \<noteq> None"
proof (induction arbitrary: t c rule: reachable.induct)
  case (r_new main_service w rand cluster_id num_threads call_timeout_ms m)
  then show ?case
    by (auto simp: new_ClientCallManager_def split: if_splits)
next
  case (r_create m now request callback call_name method_timeout_ms m')
  from r_create.hyps(2) r_create.prems r_create.IH show ?case
    unfolding CreateCall_Inr_iff
    by (auto simp: RecordStart_def new_ClientCallImpl_def Let_def split: if_splits)
next
  case (r_set_id m cluster_id m')
  then show ?case
    by (auto simp: SetClusterId_Inr_iff)
next
  case (r_grpc m t' c' reply status)
  then show ?case
    by (auto split: if_splits)
next
  case (r_poll m index AsyncNext now e m')
  from PollIteration_heap [OF r_poll.hyps(2) r_poll.prems] r_poll.IH show ?case
    by auto
next
  case (r_handler m t' h m')
  then show ?case
    by (auto simp: posted_handler_def split: option.splits if_splits)
next
  case (r_stop m)
  then show ?case by simp
next
  case (r_shutdown m)
  then show ?case by simp
qed

lemma m0_reachable: "reachable X0 m0"
proof -
  let ?a = "\<lparr>cluster_id_' = Nil_ClusterID, main_service_' = io0, num_threads_' = 1,
             shutdown_' = False, rr_index_' = 0, cqs_' = [CompletionQueue],
             polling_threads_' = [0], call_timeout_ms_' = - 1, heap = Map.empty,
             next_addr = 0, world = []\<rparr> :: (nat, nat, nat, nat, (nat \<times> nat) list) ClientCallManager"
  have "new_ClientCallManager io0 [] 0 Nil_ClusterID 1 (- 1) = Inr ?a"
    by (simp add: new_ClientCallManager_def signed_modulo_int_def)
  then have a: "reachable X0 ?a" by (rule r_new)
  obtain b where b: "CreateCall X0 0 5 (Some log_reply) ''Ping'' (- 1) ?a = Inr b"
    by (simp add: CreateCall_Inr_iff)
  with a have rb: "reachable X0 b" by (rule r_create)
  obtain c where c: "heap b 0 = Some c"
    using b unfolding CreateCall_Inr_iff by simp
  have "b\<lparr>heap := (heap b)(0 \<mapsto> c\<lparr>reply_' := 7, status_' := 4\<rparr>)\<rparr> = m0"
    using b c unfolding CreateCall_Inr_iff
    by (auto simp: m0_def call0_def io0_def X0_def RecordStart_def new_ClientCallImpl_def)
  with r_grpc [OF rb c, where reply = 7 and status = 4] show ?thesis by simp
qed

text \<open>
  C10. In every state the process can reach, each allocated call has a non-null stats
  handle (\<^verbatim>\<open>CreateCall\<close> stores the one \<^verbatim>\<open>RecordStart\<close> returned, and nothing
  changes it afterwards), so no iteration of the polling loop fails the check
  \<^verbatim>\<open>RAY_CHECK(stats_handle != nullptr)\<close>.
\<close>

theorem stats_handle_check_passes:
  assumes "reachable X m"
  shows "(\<forall>t c. heap m t = Some c \<longrightarrow> GetStatsHandle c \<noteq> None) \<and>
         PollIteration X index AsyncNext now m \<noteq> Inl CHECK_stats_handle"
proof -
  have inv: "GetStatsHandle c \<noteq> None" if "heap m t = Some c" for t c
    using reachable_stats_handle [OF assms that] by (simp add: GetStatsHandle_def)
  have "PollIteration X index AsyncNext now m \<noteq> Inl CHECK_stats_handle"
    by (auto simp: PollIteration_def Let_def GetStatsHandle_def SetReturnStatus_def
        split: if_splits option.splits prod.splits
        dest: reachable_stats_handle [OF assms])
  with inv show ?thesis by blast
qed

theorem stats_handle_check_passes_witness:
  "reachable X0 m0 \<and> heap m0 0 \<noteq> None \<and>
   PollIteration X0 0 (next0 GOT_EVENT True) 0 m0 \<noteq> Inl CHECK_stats_handle"
  using stats_handle_check_passes [OF m0_reachable, of 0 "next0 GOT_EVENT True" 0] m0_reachable
  by (simp add: m0_def)

end
